theory Spec2Isabelle
  imports Main
begin

section \<open>Values of the host language\<close>

text \<open>
  The JavaScript values the modelled code inspects: \<open>undefined\<close>, \<open>null\<close>, booleans,
  integers, strings, functions (by an identifier) and plain objects.
\<close>

datatype jsval =
    JUndefined
  | JNull
  | JBool bool
  | JNum int
  | JStr string
  | JFun nat
  | JObj "(string \<times> jsval) list"

text \<open>JavaScript truthiness, as \<open>if (v)\<close> and \<open>!v\<close> read a value.\<close>

fun truthy :: "jsval \<Rightarrow> bool" where
  "truthy JUndefined = False"
| "truthy JNull = False"
| "truthy (JBool b) = b"
| "truthy (JNum n) = (n \<noteq> 0)"
| "truthy (JStr s) = (s \<noteq> [])"
| "truthy (JFun f) = True"
| "truthy (JObj kvs) = True"

datatype js_error = TypeError string | Error string

section \<open>Application.loadOptions (src/events/shutdown.mjs, lines 75-99)\<close>

text \<open>
  \<open>Application.options\<close> is an object whose own properties are flags. A property holds
  the string that followed the flag, or an array of such strings for a flag listed in
  \<open>multiples\<close>. Only own properties are modelled: flags that name a property inherited
  from \<open>Object.prototype\<close> are outside the model.
\<close>

datatype optval = Single string | Multi "string list"

type_synonym options = "string \<rightharpoonup> optval"

text \<open>
  \<open>for (let baseFlag in aliases) if (aliases[baseFlag].includes(arg)) arg = baseFlag;\<close>
  The alias table is listed in the iteration order of the \<open>for ... in\<close> loop; the
  argument is rewritten in place, so a later entry sees the rewritten argument.
\<close>

fun alias_loop :: "(string \<times> string list) list \<Rightarrow> string \<Rightarrow> string" where
  "alias_loop [] arg = arg"
| "alias_loop ((baseFlag, names) # rest) arg =
     alias_loop rest (if arg \<in> set names then baseFlag else arg)"

text \<open>
  The variable \<open>flag\<close> is \<open>undefined\<close>, \<open>null\<close> or a string; \<open>!flag\<close> holds for
  \<open>undefined\<close>, \<open>null\<close> and the empty string.
\<close>

fun flag_falsy :: "string option \<Rightarrow> bool" where
  "flag_falsy None = True"
| "flag_falsy (Some s) = (s = [])"

text \<open>
  The \<open>else\<close> branch of the loop body: storing \<open>arg\<close> under \<open>flag\<close>. For a flag in
  \<open>multiples\<close>, \<open>!this.options[flag]\<close> holds when the property is absent or the empty
  string; an array gets the argument pushed; a non-empty string has no \<open>push\<close> and the
  call raises a TypeError.
\<close>

definition store_option :: "string list \<Rightarrow> options \<Rightarrow> string \<Rightarrow> string \<Rightarrow> js_error + options" where
  "store_option multiples opts flag arg =
     (if flag \<in> set multiples then
        (case opts flag of
           None \<Rightarrow> Inr (opts(flag \<mapsto> Multi [arg]))
         | Some (Multi vs) \<Rightarrow> Inr (opts(flag \<mapsto> Multi (vs @ [arg])))
         | Some (Single v) \<Rightarrow>
             (if v = [] then Inr (opts(flag \<mapsto> Multi [arg]))
              else Inl (TypeError ''this.options[flag].push is not a function'')))
      else Inr (opts(flag \<mapsto> Single arg)))"

text \<open>The \<open>for (let arg of process.argv.slice(2))\<close> loop, on the pair \<open>(flag, options)\<close>.\<close>

fun options_loop ::
  "string list \<Rightarrow> (string \<times> string list) list \<Rightarrow> string list \<Rightarrow>
   string option \<times> options \<Rightarrow> js_error + (string option \<times> options)" where
  "options_loop multiples aliases [] st = Inr st"
| "options_loop multiples aliases (arg # args) (flag, opts) =
     (if flag_falsy flag then
        options_loop multiples aliases args (Some (alias_loop aliases arg), opts)
      else
        (case store_option multiples opts (the flag) arg of
           Inl e \<Rightarrow> Inl e
         | Inr opts' \<Rightarrow> options_loop multiples aliases args (None, opts')))"

text \<open>
  \<open>loadOptions\<close> on the whole of \<open>process.argv\<close> and the current \<open>Application.options\<close>;
  the result is the updated options object, or the error raised.
\<close>

definition loadOptions ::
  "string list \<Rightarrow> (string \<times> string list) list \<Rightarrow> string list \<Rightarrow> options \<Rightarrow> js_error + options" where
  "loadOptions multiples aliases argv opts =
     (case options_loop multiples aliases (drop 2 argv) (None, opts) of
        Inl e \<Rightarrow> Inl e
      | Inr (flag, opts') \<Rightarrow>
          Inr (if flag_falsy flag then opts' else opts'(''_last'' \<mapsto> Single (the flag))))"

text \<open>
  The parser as the documentation of \<open>loadOptions\<close> words it: the arguments are read
  in strictly alternating flag/value pairs, and an unpaired last flag is stored under
  \<open>_last\<close>.
\<close>

fun paired_options ::
  "string list \<Rightarrow> (string \<times> string list) list \<Rightarrow> string list \<Rightarrow> options \<Rightarrow> js_error + options" where
  "paired_options multiples aliases [] opts = Inr opts"
| "paired_options multiples aliases [f] opts = Inr (opts(''_last'' \<mapsto> Single (alias_loop aliases f)))"
| "paired_options multiples aliases (f # v # rest) opts =
     (case store_option multiples opts (alias_loop aliases f) v of
        Inl e \<Rightarrow> Inl e
      | Inr opts' \<Rightarrow> paired_options multiples aliases rest opts')"

section \<open>Application.log and its shortcuts (src/events/shutdown.mjs, lines 104-163)\<close>

text \<open>
  A host call either returns a value or throws; \<open>await\<close> on a rejected promise throws
  the rejection's cause.
\<close>

datatype 'a completion = Returned 'a | Thrown js_error

type_synonym js_object = "string \<rightharpoonup> jsval"

text \<open>
  What the class reads from the process it runs in: the process title, the text of the
  current date, the clock, the file system, path resolution and the native \<open>import\<close>.
\<close>

record process_env =
  process_title :: string
  utc_string :: string
  date_now :: nat
  fs_access :: "string \<Rightarrow> unit completion"
  path_resolve :: "string \<Rightarrow> string"
  native_import :: "string \<Rightarrow> js_object \<Rightarrow> js_object completion"

datatype console_method = Console_error | Console_warn | Console_debug | Console_log

datatype log_arg = Text string | Cause js_error

record console_call =
  con_method :: console_method
  con_prefix :: string
  con_args :: "log_arg list"

definition esc :: string where
  "esc = [CHR 0x1B]"

definition console_line ::
  "process_env \<Rightarrow> console_method \<Rightarrow> string \<Rightarrow> string \<Rightarrow> log_arg list \<Rightarrow> console_call" where
  "console_line env func opener closer args =
     \<lparr>con_method = func,
      con_prefix = opener @ ''['' @ utc_string env @ '']'' @ closer,
      con_args = args\<rparr>"

text \<open>\<open>log(type, ...args)\<close>: the console calls it makes (none for a debug message outside PowerShell).\<close>

definition log :: "process_env \<Rightarrow> string \<Rightarrow> log_arg list \<Rightarrow> console_call list" where
  "log env type args =
     (if type = ''error'' then
        (if process_title env = ''Windows PowerShell''
         then [console_line env Console_error (esc @ ''[30m'' @ esc @ ''[101m'') (esc @ ''[0m'') args]
         else [console_line env Console_error [] [] args])
      else if type = ''warn'' then
        (if process_title env = ''Windows PowerShell''
         then [console_line env Console_warn (esc @ ''[30m'' @ esc @ ''[103m'') (esc @ ''[0m'') args]
         else [console_line env Console_warn [] [] args])
      else if type = ''debug'' then
        (if process_title env = ''Windows PowerShell''
         then [console_line env Console_debug (esc @ ''[30m'' @ esc @ ''[100m'') (esc @ ''[0m'') args]
         else [])
      else [console_line env Console_log [] [] args])"

definition logError :: "process_env \<Rightarrow> log_arg list \<Rightarrow> console_call list" where
  "logError env args = log env ''error'' args"

definition logWarn :: "process_env \<Rightarrow> log_arg list \<Rightarrow> console_call list" where
  "logWarn env args = log env ''warn'' args"

definition logInfo :: "process_env \<Rightarrow> log_arg list \<Rightarrow> console_call list" where
  "logInfo env args = log env ''info'' args"

definition logDebug :: "process_env \<Rightarrow> log_arg list \<Rightarrow> console_call list" where
  "logDebug env args = log env ''debug'' args"

section \<open>Application.safeImport and toModulePath (src/events/shutdown.mjs, lines 175-207)\<close>

text \<open>Decimal text of a non-negative integer, as string concatenation prints \<open>Date.now()\<close>.\<close>

fun decimal :: "nat \<Rightarrow> string" where
  "decimal n =
     (if n < 10 then [char_of (48 + n)]
      else decimal (n div 10) @ [char_of (48 + n mod 10)])"

definition quoted :: "string \<Rightarrow> string" where
  "quoted s = [CHR 0x27] @ s @ [CHR 0x27]"

definition toModulePath :: "process_env \<Rightarrow> string \<Rightarrow> string \<Rightarrow> string" where
  "toModulePath env filename appended = ''file:'' @ path_resolve env filename @ appended"

datatype host_call = Access string | Import string js_object

text \<open>
  The second argument of \<open>safeImport\<close> as a caller can give it: nothing (the default
  \<open>{}\<close> applies), \<open>null\<close>, a primitive (with the text an error message prints for it),
  or an object with its own properties; the flag says whether the object is frozen, so
  that \<open>delete\<close> of an own property raises in module (strict) code.
\<close>

datatype import_options =
    Options_absent
  | Options_null
  | Options_primitive string
  | Options_object bool js_object

text \<open>
  Lines 184-189, which stand outside both \<open>try\<close> blocks: the suffix to append and the
  object after \<open>delete options.reload\<close>. \<open>'reload' in options\<close> raises a TypeError when
  \<open>options\<close> is \<open>null\<close> or a primitive, and \<open>delete options.reload\<close> raises one when
  the object is frozen and has the property.
\<close>

definition reload_option :: "process_env \<Rightarrow> import_options \<Rightarrow> (string \<times> js_object) completion" where
  "reload_option env opts =
     (case opts of
        Options_absent \<Rightarrow> Returned ([], Map.empty)
      | Options_null \<Rightarrow>
          Thrown (TypeError (''Cannot use '' @ quoted ''in'' @ '' operator to search for ''
                             @ quoted ''reload'' @ '' in null''))
      | Options_primitive printed \<Rightarrow>
          Thrown (TypeError (''Cannot use '' @ quoted ''in'' @ '' operator to search for ''
                             @ quoted ''reload'' @ '' in '' @ printed))
      | Options_object frozen props \<Rightarrow>
          (case props ''reload'' of
             None \<Rightarrow> Returned ([], props)
           | Some v \<Rightarrow>
               if frozen
               then Thrown (TypeError (''Cannot delete property '' @ quoted ''reload'' @ '' of #<Object>''))
               else Returned (if truthy v then ''?t='' @ decimal (date_now env) else [],
                              props(''reload'' := None))))"

text \<open>
  What a call of \<open>safeImport\<close> leaves behind: the console calls, the calls of the file
  system and of \<open>import\<close> in order, and how the call completed. The returned value is
  \<open>None\<close> for the bare \<open>return;\<close> (that is \<open>undefined\<close>) and \<open>Some m\<close> for the module
  namespace \<open>m\<close>; a TypeError of lines 184-189 is not caught and completes the call.
\<close>

record import_outcome =
  console :: "console_call list"
  host_calls :: "host_call list"
  completion :: "js_object option completion"

definition safeImport :: "process_env \<Rightarrow> string \<Rightarrow> import_options \<Rightarrow> import_outcome" where
  "safeImport env filename opts =
     (case fs_access env filename of
        Thrown err \<Rightarrow>
          \<lparr>console = logError env
             [Text (''File '' @ quoted filename @ '' is not accessible for import.''), Cause err],
           host_calls = [Access filename],
           completion = Returned None\<rparr>
      | Returned u \<Rightarrow>
          (case reload_option env opts of
             Thrown err \<Rightarrow>
               \<lparr>console = [], host_calls = [Access filename], completion = Thrown err\<rparr>
           | Returned (appended, opts') \<Rightarrow>
               (let filepath = toModulePath env filename appended;
                    importing = logDebug env [Text (''Importing module '' @ quoted filepath @ ''.'')]
                in case native_import env filepath opts' of
                     Returned m \<Rightarrow>
                       \<lparr>console = importing,
                        host_calls = [Access filename, Import filepath opts'],
                        completion = Returned (Some m)\<rparr>
                   | Thrown err \<Rightarrow>
                       \<lparr>console = importing @ logError env
                          [Text (''File '' @ quoted (filename @ appended)
                                 @ '' cannot be imported by Node.js.''),
                           Cause err],
                        host_calls = [Access filename, Import filepath opts'],
                        completion = Returned None\<rparr>)))"

section \<open>The reload command (src/events/shutdown.mjs, lines 10-56)\<close>

text \<open>
  The interaction as the handler reads it: the subcommand, the string options and the
  \<open>reply\<close> call, which may reject. \<open>registerEventHandlerFile\<close> belongs to the bot's master
  object, whose code is not part of the sources: it is a parameter, and the awaited call
  may reject as well as resolve to a value the handler tests for truthiness. Neither
  \<open>await\<close> stands in a \<open>try\<close> block: a rejection ends the handler.
\<close>

record reply =
  content :: string
  ephemeral :: bool




text \<open>The subcommands the command's \<open>definition\<close> declares, with their string option.\<close>

definition reload_subcommands :: "(string \<times> string) list" where
  "reload_subcommands = [(''event'', ''file''), (''slash'', ''command'')]"

section \<open>The logger: messages and what is sent to the log channel (src/modules/logger/events/log.mjs)\<close>

text \<open>
  The objects of the chat client as the handlers read them. A field the code reads
  through \<open>in\<close>, \<open>?.\<close> or a truthiness test is an \<open>option\<close>; \<open>channel_text\<close> and
  \<open>author_text\<close> are what a template literal prints for the object; \<open>duration\<close> is the
  text a template literal prints for the attachment's duration.
\<close>

record attachment =
  att_name :: string
  contentType :: "string option"
  att_size :: nat
  width :: "nat option"
  height :: "nat option"
  duration :: string
  att_url :: string

record channel =
  channel_id :: string
  channel_guildId :: "string option"
  channel_text :: string

record author =
  username :: string
  author_id :: string
  author_text :: string

record message =
  msg_id :: string
  partial :: bool
  msg_channel :: channel
  channelId :: string
  guildId :: "string option"
  msg_content :: "string option"
  msg_author :: "author option"
  attachments :: "(string \<times> attachment) list option"
  url :: string
  editedTimestamp :: "nat option"

record field =
  field_name :: string
  field_value :: jsval

record embed =
  title :: "string option"
  description :: "string option"
  color :: "int option"
  embed_fields :: "field list"

record outbound =
  embeds :: "embed list"
  files :: "attachment list"

definition bind_c :: "'a completion \<Rightarrow> ('a \<Rightarrow> 'b completion) \<Rightarrow> 'b completion" where
  "bind_c x f = (case x of Thrown e \<Rightarrow> Thrown e | Returned v \<Rightarrow> f v)"

fun map_c :: "('a \<Rightarrow> 'b completion) \<Rightarrow> 'a list \<Rightarrow> 'b list completion" where
  "map_c f [] = Returned []"
| "map_c f (x # xs) = bind_c (f x) (\<lambda>y. bind_c (map_c f xs) (\<lambda>ys. Returned (y # ys)))"

text \<open>A number is truthy unless it is zero; an absent dimension is \<open>null\<close>.\<close>

fun dimension_truthy :: "nat option \<Rightarrow> bool" where
  "dimension_truthy None = False"
| "dimension_truthy (Some n) = (n \<noteq> 0)"

fun nullable_text :: "string option \<Rightarrow> string" where
  "nullable_text None = ''null''"
| "nullable_text (Some s) = s"

fun nullable_value :: "string option \<Rightarrow> jsval" where
  "nullable_value None = JNull"
| "nullable_value (Some s) = JStr s"

fun dimension_text :: "nat option \<Rightarrow> string" where
  "dimension_text None = ''null''"
| "dimension_text (Some n) = decimal n"

text \<open>
  \<open>attachmentToEmbed(attachment, overwrites)\<close>; both call sites pass \<open>{title: ...}\<close>, so
  \<open>overwrites\<close> is the title. \<open>attachment.contentType.startsWith\<close> raises a TypeError
  when the content type is \<open>null\<close>.
\<close>

definition attachmentToEmbed :: "attachment \<Rightarrow> string \<Rightarrow> embed completion" where
  "attachmentToEmbed a overwrite_title =
     (let fields0 =
            [\<lparr>field_name = ''Name'', field_value = JStr (att_name a)\<rparr>,
             \<lparr>field_name = ''Content Type'', field_value = nullable_value (contentType a)\<rparr>,
             \<lparr>field_name = ''Size (Bytes)'', field_value = JNum (int (att_size a))\<rparr>];
          fields1 =
            (if dimension_truthy (width a) \<and> dimension_truthy (height a)
             then fields0 @ [\<lparr>field_name = ''Size (Pixels)'',
                    field_value = JStr (dimension_text (width a) @ ''x'' @ dimension_text (height a))\<rparr>]
             else fields0)
      in case contentType a of
           None \<Rightarrow> Thrown (TypeError (''Cannot read properties of null (reading '' @ quoted ''startsWith'' @ '')''))
         | Some ct \<Rightarrow>
             Returned \<lparr>title = Some overwrite_title, description = None, color = None,
                embed_fields = (if take 6 ct = ''audio/''
                          then fields1 @ [\<lparr>field_name = ''Duration'', field_value = JStr (duration a @ ''s'')\<rparr>]
                          else fields1)\<rparr>)"

text \<open>\<open>Math.round(ms / 1000)\<close> for a non-negative integer number of milliseconds.\<close>

definition round_seconds :: "nat \<Rightarrow> nat" where
  "round_seconds ms = (ms + 500) div 1000"

definition when_field :: "nat \<Rightarrow> field" where
  "when_field ms = \<lparr>field_name = ''When'', field_value = JStr (''<t:'' @ decimal (round_seconds ms) @ '':R>'')\<rparr>"

definition uh_oh :: field where
  "uh_oh = \<lparr>field_name = ''Uh oh!'',
            field_value = JStr (''Old message content can't be fetched, because it is too old.'')\<rparr>"

fun join_texts :: "string list \<Rightarrow> string" where
  "join_texts [] = []"
| "join_texts [x] = x"
| "join_texts (x # y # ys) = x @ '', '' @ join_texts (y # ys)"

definition attachment_link :: "attachment \<Rightarrow> string" where
  "attachment_link a =
     ''['' @ att_name a @ ''](''  @ att_url a @ '') ('' @ nullable_text (contentType a) @ '')''"

text \<open>The client (\<open>this\<close>) as the handlers use it; every fetch may reject.\<close>

record client =
  channels_fetch :: "string \<Rightarrow> channel completion"
  messages_fetch :: "channel \<Rightarrow> string \<Rightarrow> message completion"
  message_fetch :: "message \<Rightarrow> message completion"
  readyTimestamp :: "int option"
  logChannelId :: string
  Date_parse :: "string option \<Rightarrow> int option"

text \<open>
  The description line of the main embed reads \<open>author.username\<close> and \<open>author.id\<close>;
  for \<open>messageUpdate\<close> an absent author raises a TypeError.
\<close>

definition author_line :: "author \<Rightarrow> string" where
  "author_line a = ''`'' @ username a @ ''` '' @ author_text a @ '' ('' @ author_id a @ '')''"

definition has_key :: "string \<Rightarrow> (string \<times> attachment) list \<Rightarrow> bool" where
  "has_key k kvs = (k \<in> set (map fst kvs))"

text \<open>\<open>collection?.size\<close> as a condition: an absent or empty collection is falsy.\<close>

fun size_truthy :: "(string \<times> attachment) list option \<Rightarrow> bool" where
  "size_truthy None = False"
| "size_truthy (Some kvs) = (kvs \<noteq> [])"

text \<open>
  The body of \<open>messageUpdate\<close> from the attachment comparison to the argument of
  \<open>logChannel.send\<close>, for the old message (or \<open>null\<close>) and the new one after fetching.
\<close>

definition removed_attachments :: "message option \<Rightarrow> message \<Rightarrow> attachment list completion" where
  "removed_attachments oldMessage newMessage =
     (case oldMessage of
        None \<Rightarrow> Returned []
      | Some old \<Rightarrow>
          (case attachments old of
             None \<Rightarrow> Returned []
           | Some olds \<Rightarrow>
               (if olds = [] then Returned []
                else case attachments newMessage of
                       None \<Rightarrow> Thrown (TypeError (''Cannot read properties of undefined (reading '' @ quoted ''has'' @ '')''))
                     | Some news \<Rightarrow> Returned (map snd (filter (\<lambda>(k, a). \<not> has_key k news) olds)))))"

definition added_attachments :: "message option \<Rightarrow> message \<Rightarrow> attachment list completion" where
  "added_attachments oldMessage newMessage =
     (case attachments newMessage of
        None \<Rightarrow> Returned []
      | Some news \<Rightarrow>
          (if news = [] then Returned []
           else case oldMessage of
                  None \<Rightarrow> Returned (map snd news)
                | Some old \<Rightarrow>
                    (case attachments old of
                       None \<Rightarrow> Thrown (TypeError (''Cannot read properties of undefined (reading '' @ quoted ''has'' @ '')''))
                     | Some olds \<Rightarrow> Returned (map snd (filter (\<lambda>(k, a). \<not> has_key k olds) news)))))"

definition attachment_list :: "message option \<Rightarrow> attachment list" where
  "attachment_list m =
     (case m of None \<Rightarrow> [] | Some msg \<Rightarrow> (case attachments msg of None \<Rightarrow> [] | Some kvs \<Rightarrow> map snd kvs))"

definition update_mainFields :: "message option \<Rightarrow> message \<Rightarrow> bool \<Rightarrow> field list" where
  "update_mainFields oldMessage newMessage compared =
     (let oldAttachList = join_texts (map attachment_link (if compared then attachment_list oldMessage else []));
          newAttachList = join_texts (map attachment_link (if compared then attachment_list (Some newMessage) else []));
          old_part =
            (case oldMessage of
               None \<Rightarrow> [uh_oh]
             | Some old \<Rightarrow>
                 (case msg_content old of
                    None \<Rightarrow> [uh_oh]
                  | Some text \<Rightarrow>
                      \<lparr>field_name = ''Old Message'', field_value = JStr text\<rparr> #
                      (if oldAttachList \<noteq> []
                       then [\<lparr>field_name = ''Old Attachments'', field_value = JStr oldAttachList\<rparr>]
                       else [])))
      in old_part
         @ [\<lparr>field_name = ''New Message'',
              field_value = (case msg_content newMessage of None \<Rightarrow> JUndefined | Some text \<Rightarrow> JStr text)\<rparr>]
         @ (if newAttachList \<noteq> []
            then [\<lparr>field_name = ''New Attachments'', field_value = JStr newAttachList\<rparr>]
            else [])
         @ [\<lparr>field_name = ''Link'',
              field_value = JStr (channel_text (msg_channel newMessage) @ '' / '' @ url newMessage)\<rparr>,
            when_field (case editedTimestamp newMessage of None \<Rightarrow> 0 | Some ms \<Rightarrow> ms)])"

definition update_outbound :: "message option \<Rightarrow> message \<Rightarrow> outbound completion" where
  "update_outbound oldMessage newMessage =
     (let compared = ((case oldMessage of None \<Rightarrow> False | Some old \<Rightarrow> size_truthy (attachments old))
                      \<or> size_truthy (attachments newMessage))
      in bind_c (if compared then removed_attachments oldMessage newMessage else Returned []) (\<lambda>removed.
         bind_c (map_c (\<lambda>a. attachmentToEmbed a ''Attachment Removed'') removed) (\<lambda>removed_embeds.
         bind_c (if compared then added_attachments oldMessage newMessage else Returned []) (\<lambda>added.
         bind_c (map_c (\<lambda>a. attachmentToEmbed a ''Attachment Added'') added) (\<lambda>added_embeds.
         (case msg_author newMessage of
            None \<Rightarrow> Thrown (TypeError (''Cannot read properties of undefined (reading '' @ quoted ''username'' @ '')''))
          | Some a \<Rightarrow>
              Returned
                \<lparr>embeds =
                   \<lparr>title = Some ''Message Updated'',
                    description = Some (author_line a),
                    color = Some 0x6666ff,
                    embed_fields = update_mainFields oldMessage newMessage compared\<rparr>
                   # removed_embeds @ added_embeds,
                 files = removed @ added\<rparr>))))))"

text \<open>The body of \<open>messageDelete\<close> from the attachment loop to the argument of \<open>logChannel.send\<close>.\<close>

definition delete_mainFields :: "message \<Rightarrow> nat \<Rightarrow> field list" where
  "delete_mainFields m date_now_ms =
     (case msg_content m of
        Some text \<Rightarrow>
          [\<lparr>field_name = ''Message'', field_value = JStr text\<rparr>,
           \<lparr>field_name = ''Link'',
             field_value = JStr (channel_text (msg_channel m) @ '' / '' @ url m)\<rparr>]
      | None \<Rightarrow> [uh_oh])
     @ [when_field date_now_ms]"

definition delete_outbound :: "message \<Rightarrow> nat \<Rightarrow> outbound completion" where
  "delete_outbound m date_now_ms =
     (let atts = (if size_truthy (attachments m) then map snd (the (attachments m)) else [])
      in bind_c (map_c (\<lambda>a. attachmentToEmbed a ''Attachment Removed'') atts) (\<lambda>att_embeds.
         Returned
           \<lparr>embeds =
              \<lparr>title = Some ''Message Deleted'',
               description = Some (case msg_author m of
                                     Some a \<Rightarrow> author_line a
                                   | None \<Rightarrow> ''in channel '' @ channel_text (msg_channel m)),
               color = Some 0xff0000,
               embed_fields = delete_mainFields m date_now_ms\<rparr>
              # att_embeds,
            files = atts\<rparr>))"

section \<open>The logger: the shared timer variable and the event handlers\<close>

text \<open>
  \<open>let messageDeleteTimer;\<close> holds \<open>undefined\<close> at first, then \<open>null\<close>, \<open>true\<close> or the
  handle that \<open>setTimeout\<close> returned.
\<close>

datatype timer_slot = Slot_undefined | Slot_null | Slot_true | Slot_timeout nat

fun slot_truthy :: "timer_slot \<Rightarrow> bool" where
  "slot_truthy Slot_undefined = False"
| "slot_truthy Slot_null = False"
| "slot_truthy Slot_true = True"
| "slot_truthy (Slot_timeout h) = True"

text \<open>
  A timeout the host has pending: its handle, the time it is due and the object its
  callback will emit with \<open>messageDelete\<close>.
\<close>

record pending_timeout =
  handle :: nat
  due :: nat
  callback_message :: message

datatype origin = Gateway | Timer nat

record dispatch =
  at :: nat
  source :: origin
  payload :: message

record packet =
  packet_t :: string
  d_id :: string
  d_channel_id :: string
  d_guild_id :: "string option"
  d_timestamp :: "string option"

datatype emitted = Emit_messageDelete message | Emit_messageUpdate "message option" message

text \<open>
  The state the handlers act on: the module variable, the host's pending timeouts and
  clock (milliseconds), and what the handlers have done so far: the runs of the
  \<open>messageDelete\<close> handler, the events emitted on the client, the messages sent to the
  log channel, the packets given to \<open>logDebug\<close> and the errors of rejected handler runs.
\<close>

record logger_state =
  messageDeleteTimer :: timer_slot
  timeouts :: "pending_timeout list"
  next_handle :: nat
  now :: nat
  dispatches :: "dispatch list"
  emits :: "emitted list"
  sent :: "outbound list"
  debugged :: "packet list"
  rejections :: "js_error list"

definition initial_state :: "nat \<Rightarrow> logger_state" where
  "initial_state t0 =
     \<lparr>messageDeleteTimer = Slot_undefined, timeouts = [], next_handle = 0, now = t0,
      dispatches = [], emits = [], sent = [], debugged = [], rejections = []\<rparr>"

text \<open>\<open>clearTimeout(v)\<close>: removes the timeout with that handle; any other value is ignored.\<close>

fun clearTimeout :: "timer_slot \<Rightarrow> pending_timeout list \<Rightarrow> pending_timeout list" where
  "clearTimeout (Slot_timeout h) ts = filter (\<lambda>p. handle p \<noteq> h) ts"
| "clearTimeout v ts = ts"

text \<open>The first statement of \<open>messageDelete\<close> (lines 137-142).\<close>

definition messageDelete_timer :: "logger_state \<Rightarrow> logger_state" where
  "messageDelete_timer s =
     (if slot_truthy (messageDeleteTimer s)
      then s\<lparr>timeouts := clearTimeout (messageDeleteTimer s) (timeouts s),
             messageDeleteTimer := Slot_null\<rparr>
      else s\<lparr>messageDeleteTimer := Slot_true\<rparr>)"

text \<open>
  The rest of \<open>messageDelete\<close> (lines 144-201): fetch a partial message, fetch the log
  channel, leave if the guilds differ, build the embeds and send them. A rejected fetch
  or a TypeError ends the run with nothing sent.
\<close>

definition settle :: "logger_state \<Rightarrow> outbound option completion \<Rightarrow> logger_state" where
  "settle s r =
     (case r of
        Thrown e \<Rightarrow> s\<lparr>rejections := rejections s @ [e]\<rparr>
      | Returned None \<Rightarrow> s
      | Returned (Some out) \<Rightarrow> s\<lparr>sent := sent s @ [out]\<rparr>)"

definition messageDelete_log :: "client \<Rightarrow> message \<Rightarrow> logger_state \<Rightarrow> logger_state" where
  "messageDelete_log c m s =
     settle s
       (bind_c (if partial m then message_fetch c m else Returned m) (\<lambda>m'.
        bind_c (channels_fetch c (logChannelId c)) (\<lambda>logChannel.
        if channel_guildId logChannel \<noteq> guildId m' then Returned None
        else bind_c (delete_outbound m' (now s)) (\<lambda>out. Returned (Some out)))))"

text \<open>
  A run of the \<open>messageDelete\<close> handler. The run is recorded with the time, where the
  event came from and the message it was given.
\<close>

definition messageDelete :: "client \<Rightarrow> origin \<Rightarrow> message \<Rightarrow> logger_state \<Rightarrow> logger_state" where
  "messageDelete c src m s =
     messageDelete_log c m
       ((messageDelete_timer s)\<lparr>dispatches := dispatches s @ [\<lparr>at = now s, source = src, payload = m\<rparr>]\<rparr>)"

definition messageUpdate :: "client \<Rightarrow> message option \<Rightarrow> message \<Rightarrow> logger_state \<Rightarrow> logger_state" where
  "messageUpdate c oldMessage newMessage s =
     settle s
       (bind_c (case oldMessage of
                  None \<Rightarrow> Returned None
                | Some old \<Rightarrow> if partial old then bind_c (message_fetch c old) (\<lambda>m. Returned (Some m))
                              else Returned (Some old)) (\<lambda>old'.
        bind_c (if partial newMessage then message_fetch c newMessage else Returned newMessage) (\<lambda>new'.
        bind_c (channels_fetch c (logChannelId c)) (\<lambda>logChannel.
        if channel_guildId logChannel \<noteq> guildId new' then Returned None
        else bind_c (update_outbound old' new') (\<lambda>out. Returned (Some out))))))"

text \<open>
  Modelled from the spec: the registration of the module's exports as listeners is code
  of the bot's master object, which is not part of the sources. Following the spec (an
  event delivered to the Dispatcher invokes the handler unit registered for its kind),
  \<open>this.emit('messageDelete', m)\<close> runs \<open>messageDelete\<close> and
  \<open>this.emit('messageUpdate', old, new)\<close> runs \<open>messageUpdate\<close>, synchronously up to the
  handler's first \<open>await\<close>.
\<close>

definition emit_messageDelete :: "client \<Rightarrow> origin \<Rightarrow> message \<Rightarrow> logger_state \<Rightarrow> logger_state" where
  "emit_messageDelete c src m s = messageDelete c src m (s\<lparr>emits := emits s @ [Emit_messageDelete m]\<rparr>)"

definition emit_messageUpdate :: "client \<Rightarrow> message option \<Rightarrow> message \<Rightarrow> logger_state \<Rightarrow> logger_state" where
  "emit_messageUpdate c oldMessage newMessage s =
     messageUpdate c oldMessage newMessage (s\<lparr>emits := emits s @ [Emit_messageUpdate oldMessage newMessage]\<rparr>)"

text \<open>
  The object the timeout's callback emits (line 218):
  \<open>{id: packet.d.id, channel, channelId: packet.d.channel_id, guildId: packet.d.guild_id}\<close>;
  every other property is absent.
\<close>

definition synthesized :: "packet \<Rightarrow> channel \<Rightarrow> message" where
  "synthesized p ch =
     \<lparr>msg_id = d_id p, partial = False, msg_channel = ch, channelId = d_channel_id p,
      guildId = d_guild_id p, msg_content = None, msg_author = None, attachments = None,
      url = ''undefined'', editedTimestamp = None\<rparr>"

text \<open>\<open>timestamp < this.readyTimestamp\<close>: false for \<open>NaN\<close>; a \<open>null\<close> ready time counts as 0.\<close>

definition before_ready :: "int option \<Rightarrow> int option \<Rightarrow> bool" where
  "before_ready timestamp ready =
     (case timestamp of
        None \<Rightarrow> False
      | Some ts \<Rightarrow> ts < (case ready of None \<Rightarrow> 0 | Some r \<Rightarrow> r))"

text \<open>
  The \<open>raw\<close> handler, from the point where its fetches have settled: a rejected fetch
  ends the run. For \<open>MESSAGE_DELETE\<close> the test of \<open>messageDeleteTimer\<close> comes after the
  \<open>await\<close> of the channel, and the step stands for the run from there on.
\<close>

definition raw :: "client \<Rightarrow> packet \<Rightarrow> logger_state \<Rightarrow> logger_state" where
  "raw c p s =
     (if packet_t p = ''MESSAGE_UPDATE'' then
        (let s1 = s\<lparr>debugged := debugged s @ [p]\<rparr>;
             timestamp = Date_parse c (d_timestamp p)
         in if before_ready timestamp (readyTimestamp c) then
              (case channels_fetch c (d_channel_id p) of
                 Thrown e \<Rightarrow> s1\<lparr>rejections := rejections s1 @ [e]\<rparr>
               | Returned ch \<Rightarrow>
                   (case messages_fetch c ch (d_id p) of
                      Thrown e \<Rightarrow> s1\<lparr>rejections := rejections s1 @ [e]\<rparr>
                    | Returned m \<Rightarrow> emit_messageUpdate c None m s1))
            else s1)
      else if packet_t p = ''MESSAGE_DELETE'' then
        (case channels_fetch c (d_channel_id p) of
           Thrown e \<Rightarrow> s\<lparr>rejections := rejections s @ [e]\<rparr>
         | Returned ch \<Rightarrow>
             (if \<not> slot_truthy (messageDeleteTimer s) then
                s\<lparr>messageDeleteTimer := Slot_timeout (next_handle s),
                  timeouts := timeouts s @
                    [\<lparr>handle = next_handle s, due = now s + 500, callback_message = synthesized p ch\<rparr>],
                  next_handle := Suc (next_handle s)\<rparr>
              else s\<lparr>messageDeleteTimer := Slot_null\<rparr>))
      else s)"

text \<open>
  What happens to the logger: the gateway delivers a structured \<open>messageDelete\<close> or a
  raw packet, time passes, or the host runs the callback of a timeout that is due. A
  timeout that is not pending or not yet due does not run.
\<close>

datatype event =
    Gateway_messageDelete message
  | Gateway_raw packet
  | Elapse nat
  | Timeout nat

fun step :: "client \<Rightarrow> event \<Rightarrow> logger_state \<Rightarrow> logger_state" where
  "step c (Gateway_messageDelete m) s = messageDelete c Gateway m s"
| "step c (Gateway_raw p) s = raw c p s"
| "step c (Elapse n) s = s\<lparr>now := now s + n\<rparr>"
| "step c (Timeout h) s =
     (case find (\<lambda>p. handle p = h) (timeouts s) of
        None \<Rightarrow> s
      | Some p \<Rightarrow>
          if due p \<le> now s
          then emit_messageDelete c (Timer h) (callback_message p)
                 (s\<lparr>timeouts := filter (\<lambda>q. handle q \<noteq> h) (timeouts s)\<rparr>)
          else s)"

fun run :: "client \<Rightarrow> event list \<Rightarrow> logger_state \<Rightarrow> logger_state" where
  "run c [] s = s"
| "run c (e # es) s = run c es (step c e s)"

section \<open>Notions used to state the properties\<close>

text \<open>
  An argument list none of whose arguments in flag position is the empty string after
  alias rewriting, and the last statement of \<open>loadOptions\<close> on the loop's final state.
\<close>

fun flags_nonempty :: "(string \<times> string list) list \<Rightarrow> string list \<Rightarrow> bool" where
  "flags_nonempty aliases [] = True"
| "flags_nonempty aliases [f] = (alias_loop aliases f \<noteq> [])"
| "flags_nonempty aliases (f # v # rest) =
     (alias_loop aliases f \<noteq> [] \<and> flags_nonempty aliases rest)"

definition finish_options :: "string option \<times> options \<Rightarrow> options" where
  "finish_options st =
     (if flag_falsy (fst st) then snd st else (snd st)(''_last'' \<mapsto> Single (the (fst st))))"

text \<open>
  Freshness is requested when \<open>options.reload\<close> is truthy. The options lines 184-189
  accept are no options at all and an object whose \<open>reload\<close> property, if it has one,
  can be deleted.
\<close>

definition fresh :: "import_options \<Rightarrow> bool" where
  "fresh opts =
     (case opts of
        Options_object frozen props \<Rightarrow> (case props ''reload'' of None \<Rightarrow> False | Some v \<Rightarrow> truthy v)
      | _ \<Rightarrow> False)"

definition options_usable :: "import_options \<Rightarrow> bool" where
  "options_usable opts =
     (case opts of
        Options_absent \<Rightarrow> True
      | Options_object frozen props \<Rightarrow> \<not> (frozen \<and> props ''reload'' \<noteq> None)
      | _ \<Rightarrow> False)"

text \<open>The locators given to \<open>import\<close>, in order.\<close>

fun import_locators :: "host_call list \<Rightarrow> string list" where
  "import_locators [] = []"
| "import_locators (Access f # cs) = import_locators cs"
| "import_locators (Import l opts # cs) = l # import_locators cs"

text \<open>
  The handler module contract in the spec's words: a module exposes a \<open>definition\<close>
  object and a callable \<open>handler\<close>.
\<close>

definition spec_required_exports :: "js_object \<Rightarrow> bool" where
  "spec_required_exports m =
     ((case m ''definition'' of Some (JObj kvs) \<Rightarrow> True | _ \<Rightarrow> False)
      \<and> (case m ''handler'' of Some (JFun f) \<Rightarrow> True | _ \<Rightarrow> False))"

text \<open>A timeout handle is pending while the host still holds a timeout with it.\<close>

definition pending :: "logger_state \<Rightarrow> nat \<Rightarrow> bool" where
  "pending s h = (h \<in> set (map handle (timeouts s)))"

text \<open>
  The invariant of the logger's timer state: handles are unique and below the next
  handle, and a handle held by \<open>messageDeleteTimer\<close> is that of a pending timeout.
\<close>

definition slot_inv :: "logger_state \<Rightarrow> bool" where
  "slot_inv s =
     (distinct (map handle (timeouts s))
      \<and> (\<forall>h \<in> set (map handle (timeouts s)). h < next_handle s)
      \<and> (case messageDeleteTimer s of Slot_timeout h \<Rightarrow> pending s h | _ \<Rightarrow> True))"

text \<open>
  The deduplication entries the variable stands for: a pending timer with the id of
  the message its callback will report, or the first-seen flag (which records no id).
\<close>

datatype entry = Pending_timer nat string | First_seen_flag

definition dedup_entries :: "logger_state \<Rightarrow> entry list" where
  "dedup_entries s =
     (case messageDeleteTimer s of
        Slot_timeout h \<Rightarrow>
          map (\<lambda>p. Pending_timer h (msg_id (callback_message p)))
            (filter (\<lambda>p. handle p = h) (timeouts s))
      | Slot_true \<Rightarrow> [First_seen_flag]
      | _ \<Rightarrow> [])"

text \<open>Whether an event makes the \<open>messageDelete\<close> handler run in a state.\<close>

fun runs_messageDelete :: "event \<Rightarrow> logger_state \<Rightarrow> bool" where
  "runs_messageDelete (Gateway_messageDelete m) s = True"
| "runs_messageDelete (Timeout h) s =
     (case find (\<lambda>p. handle p = h) (timeouts s) of None \<Rightarrow> False | Some p \<Rightarrow> due p \<le> now s)"
| "runs_messageDelete e s = False"

text \<open>The number of runs of the \<open>messageDelete\<close> handler for a message id.\<close>

definition dispatch_count :: "string \<Rightarrow> logger_state \<Rightarrow> nat" where
  "dispatch_count key s = length (filter (\<lambda>d. msg_id (payload d) = key) (dispatches s))"

section \<open>Concrete hosts, messages and packets\<close>

definition demo_env :: process_env where
  "demo_env =
     \<lparr>process_title = ''node'',
      utc_string = ''Mon, 02 Nov 2026 12:00:00 GMT'',
      date_now = 1234,
      fs_access = (\<lambda>f. if f = ''events/gone.mjs'' then Thrown (Error ''ENOENT'') else Returned ()),
      path_resolve = (\<lambda>f. ''/bot/'' @ f),
      native_import = (\<lambda>l opts. if l = ''file:/bot/events/broken.mjs''
                                  then Thrown (Error ''SyntaxError'')
                                  else Returned [''default'' \<mapsto> JNum 1])\<rparr>"






definition general :: channel where
  "general = \<lparr>channel_id = ''general'', channel_guildId = Some ''guild'', channel_text = ''<#general>''\<rparr>"

definition log_channel :: channel where
  "log_channel = \<lparr>channel_id = ''log'', channel_guildId = Some ''guild'', channel_text = ''<#log>''\<rparr>"

definition cached_message :: "string \<Rightarrow> message" where
  "cached_message k =
     \<lparr>msg_id = k, partial = False, msg_channel = general, channelId = ''general'',
      guildId = Some ''guild'', msg_content = Some ''hello'',
      msg_author = Some \<lparr>username = ''ann'', author_id = ''1'', author_text = ''<@1>''\<rparr>,
      attachments = Some [], url = ''https://discord.com/channels/guild/general/'' @ k,
      editedTimestamp = Some 2600\<rparr>"

definition demo_client :: client where
  "demo_client =
     \<lparr>channels_fetch = (\<lambda>cid. if cid = ''general'' then Returned general
                              else if cid = ''log'' then Returned log_channel
                              else Thrown (Error ''Unknown Channel'')),
      messages_fetch = (\<lambda>ch mid. if mid = ''M'' then Returned (cached_message ''M'')
                                 else Thrown (Error ''Unknown Message'')),
      message_fetch = (\<lambda>m. Thrown (Error ''Unknown Message'')),
      readyTimestamp = Some 1000,
      logChannelId = ''log'',
      Date_parse = (\<lambda>text. if text = Some ''1970-01-01T00:00:00.500Z'' then Some 500
                            else if text = Some ''1970-01-01T00:00:02.000Z'' then Some 2000
                            else None)\<rparr>"

definition delete_packet :: "string \<Rightarrow> packet" where
  "delete_packet k =
     \<lparr>packet_t = ''MESSAGE_DELETE'', d_id = k, d_channel_id = ''general'',
      d_guild_id = Some ''guild'', d_timestamp = None\<rparr>"

definition update_packet :: "string \<Rightarrow> string \<Rightarrow> packet" where
  "update_packet cid stamp =
     \<lparr>packet_t = ''MESSAGE_UPDATE'', d_id = ''M'', d_channel_id = cid,
      d_guild_id = Some ''guild'', d_timestamp = Some stamp\<rparr>"

section \<open>Properties of loadOptions\<close>

text \<open>
  Where no argument in flag position is the empty string after alias rewriting, the
  loop is the alternating parser of the documentation.
\<close>

lemma options_loop_paired:
  "flags_nonempty aliases args \<Longrightarrow>
   map_sum id finish_options (options_loop multiples aliases args (None, opts)) =
     paired_options multiples aliases args opts"
  by (induction multiples aliases args opts rule: paired_options.induct)
     (auto simp: finish_options_def split: sum.splits)

lemma loadOptions_paired:
  "flags_nonempty aliases (drop 2 argv) \<Longrightarrow>
   loadOptions multiples aliases argv opts =
     paired_options multiples aliases (drop 2 argv) opts"
  using options_loop_paired [of aliases "drop 2 argv" multiples opts]
  by (auto simp: loadOptions_def finish_options_def split: sum.splits prod.splits)

text \<open>
  C10. The documentation of \<open>loadOptions\<close> promises strictly alternating flag/value
  pairs, with an unpaired last flag stored under \<open>_last\<close>. The loop tests \<open>!flag\<close> to
  tell whether a flag is pending, and the empty string is falsy: started as
  \<open>node app.mjs "" a b\<close>, the code drops the empty flag, reads \<open>a\<close> as the flag and
  \<open>b\<close> as its value and stores no \<open>_last\<close>, where the alternating reading stores \<open>a\<close>
  under the empty flag and \<open>b\<close> under \<open>_last\<close>.
\<close>

theorem loadOptions_empty_flag:
  "loadOptions [] [] [''node'', ''app.mjs'', '''', ''a'', ''b''] Map.empty
     = Inr [''a'' \<mapsto> Single ''b'']
   \<and> paired_options [] [] ['''', ''a'', ''b''] Map.empty
     = Inr ['''' \<mapsto> Single ''a'', ''_last'' \<mapsto> Single ''b'']
   \<and> loadOptions [] [] [''node'', ''app.mjs'', '''', ''a'', ''b''] Map.empty
     \<noteq> paired_options [] [] ['''', ''a'', ''b''] Map.empty"
proof -
  have code: "loadOptions [] [] [''node'', ''app.mjs'', '''', ''a'', ''b''] Map.empty
      = Inr [''a'' \<mapsto> Single ''b'']"
    by (simp add: loadOptions_def store_option_def)
  have doc: "paired_options [] [] ['''', ''a'', ''b''] Map.empty
      = Inr ['''' \<mapsto> Single ''a'', ''_last'' \<mapsto> Single ''b'']"
    by (simp add: store_option_def)
  have "[''a'' \<mapsto> Single ''b''] ''_last''
      \<noteq> ['''' \<mapsto> Single ''a'', ''_last'' \<mapsto> Single ''b''] ''_last''"
    by simp
  then have "[''a'' \<mapsto> Single ''b'']
      \<noteq> ['''' \<mapsto> Single ''a'', ''_last'' \<mapsto> Single ''b'']"
    by metis
  with code doc show ?thesis by simp
qed

section \<open>Properties of safeImport\<close>

declare decimal.simps [simp del]

lemma decimal_1234: "decimal 1234 = ''1234''"
  by code_simp

lemma logError_line:
  "logError env args =
     [console_line env Console_error
        (if process_title env = ''Windows PowerShell'' then esc @ ''[30m'' @ esc @ ''[101m'' else [])
        (if process_title env = ''Windows PowerShell'' then esc @ ''[0m'' else []) args]"
  by (simp add: logError_def log_def)

lemma reload_option_usable:
  "options_usable opts \<Longrightarrow>
   reload_option env opts =
     Returned (if fresh opts then ''?t='' @ decimal (date_now env) else [],
               case opts of Options_object frozen props \<Rightarrow> props(''reload'' := None)
                          | _ \<Rightarrow> Map.empty)"
  by (auto simp: options_usable_def reload_option_def fresh_def
           split: import_options.splits option.splits)

lemma reload_option_unusable:
  "\<not> options_usable opts \<Longrightarrow> \<exists>e. reload_option env opts = Thrown e"
  by (auto simp: options_usable_def reload_option_def split: import_options.splits option.splits)

text \<open>
  C5. When the source is accessible, the one locator given to \<open>import\<close> is the
  canonical locator \<open>file:\<close> followed by the resolved path, with \<open>?t=\<close> and the current
  timestamp appended when \<open>options.reload\<close> is truthy and nothing appended otherwise.
  (For options on which lines 184-189 raise, no locator is built at all.)
\<close>

theorem safeImport_locator:
  "fs_access env filename = Returned u \<Longrightarrow>
   import_locators (host_calls (safeImport env filename opts)) =
     (if options_usable opts
      then [if fresh opts
            then toModulePath env filename [] @ ''?t='' @ decimal (date_now env)
            else toModulePath env filename []]
      else [])
   \<and> toModulePath env filename [] = ''file:'' @ path_resolve env filename"
proof (cases "options_usable opts")
  case True
  assume "fs_access env filename = Returned u"
  then show ?thesis
    using True reload_option_usable [OF True, of env]
    by (auto simp: safeImport_def toModulePath_def Let_def split: completion.splits)
next
  case False
  assume acc: "fs_access env filename = Returned u"
  from reload_option_unusable [OF False, of env] obtain e where "reload_option env opts = Thrown e"
    by blast
  with acc False show ?thesis
    by (simp add: safeImport_def toModulePath_def)
qed

theorem safeImport_locator_witness:
  "fs_access demo_env ''events/log.mjs'' = Returned ()
   \<and> import_locators (host_calls
        (safeImport demo_env ''events/log.mjs'' (Options_object False [''reload'' \<mapsto> JBool True])))
       = [''file:/bot/events/log.mjs?t=1234'']
   \<and> import_locators (host_calls (safeImport demo_env ''events/log.mjs'' Options_absent))
       = [''file:/bot/events/log.mjs'']"
proof -
  have acc: "fs_access demo_env ''events/log.mjs'' = Returned ()"
    by (simp add: demo_env_def)
  have env: "path_resolve demo_env ''events/log.mjs'' = ''/bot/events/log.mjs''"
    "date_now demo_env = 1234"
    by (simp_all add: demo_env_def)
  show ?thesis
    using acc safeImport_locator [OF acc, of "Options_object False [''reload'' \<mapsto> JBool True]"]
      safeImport_locator [OF acc, of Options_absent]
    by (simp add: fresh_def options_usable_def env decimal_1234)
qed

text \<open>
  C4, as the code has it. With no options, or with an object whose \<open>reload\<close> property
  (if any) can be deleted, \<open>safeImport\<close> never completes by throwing. When the access
  check throws, it returns \<open>undefined\<close> without attempting the import; when the import
  throws, it returns \<open>undefined\<close>. The returned value is the same bare \<open>undefined\<close> in
  both cases: the cause is passed to \<open>console.error\<close> and is not part of the result.
\<close>

theorem safeImport_failure_value:
  "(options_usable opts \<longrightarrow> (\<exists>r. completion (safeImport env filename opts) = Returned r))
   \<and> (\<forall>err. fs_access env filename = Thrown err \<longrightarrow>
        completion (safeImport env filename opts) = Returned None
        \<and> host_calls (safeImport env filename opts) = [Access filename]
        \<and> (\<exists>line \<in> set (console (safeImport env filename opts)).
              con_method line = Console_error \<and> Cause err \<in> set (con_args line)))
   \<and> (\<forall>l opts' err.
        host_calls (safeImport env filename opts) = [Access filename, Import l opts']
        \<and> native_import env l opts' = Thrown err \<longrightarrow>
        completion (safeImport env filename opts) = Returned None
        \<and> (\<exists>line \<in> set (console (safeImport env filename opts)).
              con_method line = Console_error \<and> Cause err \<in> set (con_args line)))"
proof (intro conjI allI impI)
  assume "options_usable opts"
  from reload_option_usable [OF this, of env]
  show "\<exists>r. completion (safeImport env filename opts) = Returned r"
    by (simp add: safeImport_def Let_def split: completion.splits)
next
  fix err assume "fs_access env filename = Thrown err"
  then show "completion (safeImport env filename opts) = Returned None"
    and "host_calls (safeImport env filename opts) = [Access filename]"
    and "\<exists>line \<in> set (console (safeImport env filename opts)).
              con_method line = Console_error \<and> Cause err \<in> set (con_args line)"
    by (simp_all add: safeImport_def logError_line console_line_def)
next
  fix l opts' err
  assume h: "host_calls (safeImport env filename opts) = [Access filename, Import l opts']
        \<and> native_import env l opts' = Thrown err"
  then show "completion (safeImport env filename opts) = Returned None"
    by (auto simp: safeImport_def Let_def split: completion.splits prod.splits)
  from h show "\<exists>line \<in> set (console (safeImport env filename opts)).
              con_method line = Console_error \<and> Cause err \<in> set (con_args line)"
    by (auto simp: safeImport_def Let_def logError_line console_line_def
             split: completion.splits prod.splits)
qed

lemma demo_env_gone: "fs_access demo_env ''events/gone.mjs'' = Thrown (Error ''ENOENT'')"
  by (simp add: demo_env_def)

lemma demo_env_broken:
  "host_calls (safeImport demo_env ''events/broken.mjs'' Options_absent)
     = [Access ''events/broken.mjs'', Import ''file:/bot/events/broken.mjs'' Map.empty]
   \<and> native_import demo_env ''file:/bot/events/broken.mjs'' Map.empty = Thrown (Error ''SyntaxError'')"
  by (simp add: demo_env_def safeImport_def reload_option_def toModulePath_def Let_def)

theorem safeImport_failure_value_witness:
  "options_usable Options_absent
   \<and> fs_access demo_env ''events/gone.mjs'' = Thrown (Error ''ENOENT'')
   \<and> completion (safeImport demo_env ''events/gone.mjs'' Options_absent) = Returned None
   \<and> native_import demo_env ''file:/bot/events/broken.mjs'' Map.empty = Thrown (Error ''SyntaxError'')
   \<and> completion (safeImport demo_env ''events/broken.mjs'' Options_absent) = Returned None"
proof -
  have usable: "options_usable Options_absent"
    by (simp add: options_usable_def)
  show ?thesis
    using usable
      safeImport_failure_value [of Options_absent demo_env "''events/gone.mjs''"]
      safeImport_failure_value [of Options_absent demo_env "''events/broken.mjs''"]
      demo_env_gone demo_env_broken
    by blast
qed

text \<open>
  C4, as the claim states it, fails twice. An inaccessible source and a failing import
  with different causes give the same result, \<open>undefined\<close>, which names no kind of
  failure and carries no cause. And with a frozen options object that has a \<open>reload\<close>
  property and an accessible source, \<open>delete options.reload\<close> raises outside both \<open>try\<close>
  blocks and the call completes by throwing.
\<close>

theorem safeImport_bare_failure_counterexample:
  "fs_access demo_env ''events/gone.mjs'' = Thrown (Error ''ENOENT'')
   \<and> completion (safeImport demo_env ''events/gone.mjs'' Options_absent) = Returned None
   \<and> native_import demo_env ''file:/bot/events/broken.mjs'' Map.empty = Thrown (Error ''SyntaxError'')
   \<and> completion (safeImport demo_env ''events/broken.mjs'' Options_absent) = Returned None
   \<and> completion (safeImport demo_env ''events/log.mjs'' (Options_object True [''reload'' \<mapsto> JBool True]))
       = Thrown (TypeError (''Cannot delete property '' @ quoted ''reload'' @ '' of #<Object>''))
   \<and> completion (safeImport demo_env ''events/log.mjs'' Options_null)
       = Thrown (TypeError (''Cannot use '' @ quoted ''in'' @ '' operator to search for ''
                            @ quoted ''reload'' @ '' in null''))"
  by (simp add: demo_env_def safeImport_def reload_option_def toModulePath_def Let_def)

text \<open>
  C3, as the code has it. \<open>safeImport\<close> does not look at what the module exports:
  whenever the import returns a module, that module is the result as it is, and the
  failure value is returned only when the access check or the import itself throws.
\<close>

theorem safeImport_returns_any_module:
  "(\<forall>l opts' m.
      host_calls (safeImport env filename opts) = [Access filename, Import l opts']
      \<and> native_import env l opts' = Returned m \<longrightarrow>
      completion (safeImport env filename opts) = Returned (Some m))
   \<and> (completion (safeImport env filename opts) = Returned None \<longrightarrow>
        (\<exists>e. fs_access env filename = Thrown e)
        \<or> (\<exists>l opts' e.
              host_calls (safeImport env filename opts) = [Access filename, Import l opts']
              \<and> native_import env l opts' = Thrown e))"
  by (auto simp: safeImport_def Let_def split: completion.splits prod.splits)

lemma demo_env_log:
  "host_calls (safeImport demo_env ''events/log.mjs'' Options_absent)
     = [Access ''events/log.mjs'', Import ''file:/bot/events/log.mjs'' Map.empty]
   \<and> native_import demo_env ''file:/bot/events/log.mjs'' Map.empty
     = Returned [''default'' \<mapsto> JNum 1]"
  by (simp add: demo_env_def safeImport_def reload_option_def toModulePath_def Let_def)

theorem safeImport_returns_any_module_witness:
  "native_import demo_env ''file:/bot/events/log.mjs'' Map.empty = Returned [''default'' \<mapsto> JNum 1]
   \<and> completion (safeImport demo_env ''events/log.mjs'' Options_absent)
       = Returned (Some [''default'' \<mapsto> JNum 1])"
  using safeImport_returns_any_module [of demo_env "''events/log.mjs''" Options_absent] demo_env_log
  by blast

text \<open>
  C3, as the claim states it, fails: a module that exposes neither a \<open>definition\<close> nor a
  \<open>handler\<close> is returned as a successful result.
\<close>

theorem safeImport_unvalidated_counterexample:
  "\<not> spec_required_exports [''default'' \<mapsto> JNum 1]
   \<and> completion (safeImport demo_env ''events/log.mjs'' Options_absent)
       = Returned (Some [''default'' \<mapsto> JNum 1])"
  by (simp add: spec_required_exports_def safeImport_def reload_option_def demo_env_def
        toModulePath_def Let_def)

section \<open>Properties of the reload command\<close>




section \<open>Properties of the logger\<close>

subsection \<open>What each handler changes\<close>

lemma settle_frame [simp]:
  "messageDeleteTimer (settle s r) = messageDeleteTimer s"
  "timeouts (settle s r) = timeouts s"
  "next_handle (settle s r) = next_handle s"
  "now (settle s r) = now s"
  "dispatches (settle s r) = dispatches s"
  "emits (settle s r) = emits s"
  "debugged (settle s r) = debugged s"
  by (simp_all add: settle_def split: completion.splits option.splits)

lemma messageDelete_log_frame [simp]:
  "messageDeleteTimer (messageDelete_log c m s) = messageDeleteTimer s"
  "timeouts (messageDelete_log c m s) = timeouts s"
  "next_handle (messageDelete_log c m s) = next_handle s"
  "now (messageDelete_log c m s) = now s"
  "dispatches (messageDelete_log c m s) = dispatches s"
  "emits (messageDelete_log c m s) = emits s"
  "debugged (messageDelete_log c m s) = debugged s"
  by (simp_all add: messageDelete_log_def)

lemma messageUpdate_frame [simp]:
  "messageDeleteTimer (messageUpdate c old new s) = messageDeleteTimer s"
  "timeouts (messageUpdate c old new s) = timeouts s"
  "next_handle (messageUpdate c old new s) = next_handle s"
  "now (messageUpdate c old new s) = now s"
  "dispatches (messageUpdate c old new s) = dispatches s"
  "emits (messageUpdate c old new s) = emits s"
  "debugged (messageUpdate c old new s) = debugged s"
  by (simp_all add: messageUpdate_def)

lemma messageDelete_effect:
  "messageDeleteTimer (messageDelete c src m s) =
     (if slot_truthy (messageDeleteTimer s) then Slot_null else Slot_true)"
  "timeouts (messageDelete c src m s) =
     (if slot_truthy (messageDeleteTimer s) then clearTimeout (messageDeleteTimer s) (timeouts s)
      else timeouts s)"
  "next_handle (messageDelete c src m s) = next_handle s"
  "now (messageDelete c src m s) = now s"
  "dispatches (messageDelete c src m s) = dispatches s @ [\<lparr>at = now s, source = src, payload = m\<rparr>]"
  "emits (messageDelete c src m s) = emits s"
  by (simp_all add: messageDelete_def messageDelete_timer_def)

lemma emit_messageDelete_effect:
  "messageDeleteTimer (emit_messageDelete c src m s) =
     (if slot_truthy (messageDeleteTimer s) then Slot_null else Slot_true)"
  "timeouts (emit_messageDelete c src m s) =
     (if slot_truthy (messageDeleteTimer s) then clearTimeout (messageDeleteTimer s) (timeouts s)
      else timeouts s)"
  "next_handle (emit_messageDelete c src m s) = next_handle s"
  "now (emit_messageDelete c src m s) = now s"
  "dispatches (emit_messageDelete c src m s) = dispatches s @ [\<lparr>at = now s, source = src, payload = m\<rparr>]"
  "emits (emit_messageDelete c src m s) = emits s @ [Emit_messageDelete m]"
  by (simp_all add: emit_messageDelete_def messageDelete_effect)

lemma raw_delete:
  "packet_t p = ''MESSAGE_DELETE'' \<Longrightarrow>
   raw c p s =
     (case channels_fetch c (d_channel_id p) of
        Thrown e \<Rightarrow> s\<lparr>rejections := rejections s @ [e]\<rparr>
      | Returned ch \<Rightarrow>
          (if \<not> slot_truthy (messageDeleteTimer s) then
             s\<lparr>messageDeleteTimer := Slot_timeout (next_handle s),
               timeouts := timeouts s @
                 [\<lparr>handle = next_handle s, due = now s + 500, callback_message = synthesized p ch\<rparr>],
               next_handle := Suc (next_handle s)\<rparr>
           else s\<lparr>messageDeleteTimer := Slot_null\<rparr>))"
  by (simp add: raw_def)

lemma raw_delete_effect:
  assumes "packet_t p = ''MESSAGE_DELETE''" and "channels_fetch c (d_channel_id p) = Returned ch"
  shows "messageDeleteTimer (raw c p s) =
           (if slot_truthy (messageDeleteTimer s) then Slot_null else Slot_timeout (next_handle s))"
    and "timeouts (raw c p s) =
           (if slot_truthy (messageDeleteTimer s) then timeouts s
            else timeouts s @
              [\<lparr>handle = next_handle s, due = now s + 500, callback_message = synthesized p ch\<rparr>])"
    and "next_handle (raw c p s) =
           (if slot_truthy (messageDeleteTimer s) then next_handle s else Suc (next_handle s))"
    and "now (raw c p s) = now s"
    and "dispatches (raw c p s) = dispatches s"
    and "emits (raw c p s) = emits s"
  using assms by (simp_all add: raw_def)

lemma find_fresh_handle:
  "\<forall>q \<in> set ts. handle q \<noteq> h \<Longrightarrow> handle p = h \<Longrightarrow>
   find (\<lambda>q. handle q = h) (ts @ [p]) = Some p"
  by (induction ts) auto

lemma filter_fresh_handle:
  "\<forall>q \<in> set ts. handle q \<noteq> h \<Longrightarrow> filter (\<lambda>q. handle q \<noteq> h) ts = ts"
  by (induction ts) auto

lemma filter_handle_le1:
  "distinct (map handle ts) \<Longrightarrow> length (filter (\<lambda>p. handle p = h) ts) \<le> 1"
  by (induction ts) (auto simp: filter_empty_conv image_iff)

subsection \<open>The invariant of the timer state\<close>

lemma slot_inv_step: "slot_inv s \<Longrightarrow> slot_inv (step c e s)"
proof (cases e)
  case (Gateway_messageDelete m)
  assume "slot_inv s"
  then show ?thesis
    unfolding Gateway_messageDelete
    by (cases "messageDeleteTimer s")
       (auto simp: slot_inv_def pending_def messageDelete_effect distinct_map_filter)
next
  case (Gateway_raw p)
  assume inv: "slot_inv s"
  show ?thesis
    unfolding Gateway_raw using inv
    by (auto simp: slot_inv_def pending_def raw_def emit_messageUpdate_def Let_def less_Suc_eq
             split: completion.splits timer_slot.splits)
next
  case (Elapse n)
  assume "slot_inv s"
  then show ?thesis
    unfolding Elapse by (simp add: slot_inv_def pending_def split: timer_slot.splits)
next
  case (Timeout h)
  assume inv: "slot_inv s"
  show ?thesis
    unfolding Timeout using inv
    by (cases "messageDeleteTimer s")
       (auto simp: slot_inv_def pending_def emit_messageDelete_effect distinct_map_filter
             split: option.splits)
qed

lemma slot_inv_run: "slot_inv s \<Longrightarrow> slot_inv (run c es s)"
  by (induction es arbitrary: s) (auto simp: slot_inv_step)

lemma slot_inv_initial: "slot_inv (initial_state t0)"
  by (simp add: slot_inv_def initial_state_def)

lemma slot_inv_entries: "slot_inv s \<Longrightarrow> length (dedup_entries s) \<le> 1"
  using filter_handle_le1 [of "timeouts s"]
  by (auto simp: dedup_entries_def slot_inv_def split: timer_slot.splits)

lemma slot_inv_fresh:
  "slot_inv s \<Longrightarrow> \<forall>q \<in> set (timeouts s). handle q \<noteq> next_handle s"
  by (auto simp: slot_inv_def)

subsection \<open>Concrete runs\<close>

lemma demo_facts [simp]:
  "packet_t (delete_packet k) = ''MESSAGE_DELETE''"
  "d_id (delete_packet k) = k"
  "d_channel_id (delete_packet k) = ''general''"
  "channels_fetch demo_client ''general'' = Returned general"
  "msg_id (cached_message k) = k"
  "msg_id (synthesized p ch) = d_id p"
  by (simp_all add: delete_packet_def demo_client_def cached_message_def synthesized_def)

lemma initial_facts [simp]:
  "messageDeleteTimer (initial_state t0) = Slot_undefined"
  "timeouts (initial_state t0) = []"
  "next_handle (initial_state t0) = 0"
  "now (initial_state t0) = t0"
  "dispatches (initial_state t0) = []"
  "emits (initial_state t0) = []"
  "sent (initial_state t0) = []"
  "rejections (initial_state t0) = []"
  by (simp_all add: initial_state_def)

text \<open>
  C2, as the code has it. In every state the logger can reach, at most one entry is
  tracked in total: the one variable \<open>messageDeleteTimer\<close>, which holds the first-seen
  flag or the handle of one timeout that is still pending (handles are unique). The
  entry carries no key: all messages share it.
\<close>

theorem single_shared_entry:
  "slot_inv (run c es (initial_state t0))
   \<and> length (dedup_entries (run c es (initial_state t0))) \<le> 1"
  using slot_inv_run [OF slot_inv_initial, of c es t0] slot_inv_entries by blast

theorem single_shared_entry_witness:
  "slot_inv (run demo_client [Gateway_raw (delete_packet ''A''), Elapse 100] (initial_state 0))
   \<and> dedup_entries (run demo_client [Gateway_raw (delete_packet ''A''), Elapse 100] (initial_state 0))
       = [Pending_timer 0 ''A'']"
proof -
  have "dedup_entries (run demo_client [Gateway_raw (delete_packet ''A''), Elapse 100] (initial_state 0))
       = [Pending_timer 0 ''A'']"
    by (simp add: dedup_entries_def raw_delete)
  then show ?thesis
    using single_shared_entry [of demo_client "[Gateway_raw (delete_packet ''A''), Elapse 100]" 0]
    by simp
qed

text \<open>
  C2, as the claim states it, fails: the raw packet for message B consumes the entry
  that the raw packet for message A created (the variable is set to \<open>null\<close>).
\<close>

theorem raw_consumes_other_entry_counterexample:
  "dedup_entries (run demo_client [Gateway_raw (delete_packet ''A'')] (initial_state 0))
     = [Pending_timer 0 ''A'']
   \<and> d_id (delete_packet ''B'') \<noteq> ''A''
   \<and> dedup_entries (run demo_client [Gateway_raw (delete_packet ''A''), Gateway_raw (delete_packet ''B'')]
        (initial_state 0)) = []
   \<and> pending (run demo_client [Gateway_raw (delete_packet ''A''), Gateway_raw (delete_packet ''B'')]
        (initial_state 0)) 0"
  by (simp add: dedup_entries_def pending_def raw_delete)

text \<open>
  C7, as the code has it. A pending timeout is cancelled (it stops being pending
  without having run) exactly when the \<open>messageDelete\<close> handler runs, for a structured
  event or for the event synthesized by another timeout, while \<open>messageDeleteTimer\<close>
  holds that timeout's handle. Which message the event is about plays no part.
\<close>

theorem timeout_cancelled_iff:
  assumes "pending s h" and "e \<noteq> Timeout h"
  shows "(\<not> pending (step c e s) h)
         = (messageDeleteTimer s = Slot_timeout h \<and> runs_messageDelete e s)"
proof (cases e)
  case (Gateway_messageDelete m)
  then show ?thesis using assms(1)
    by (cases "messageDeleteTimer s") (auto simp: pending_def messageDelete_effect)
next
  case (Gateway_raw p)
  then show ?thesis using assms(1)
    by (auto simp: pending_def raw_def emit_messageUpdate_def Let_def split: completion.splits)
next
  case (Elapse n)
  then show ?thesis using assms(1) by (simp add: pending_def)
next
  case (Timeout h')
  with assms(2) have ne: "h' \<noteq> h" by simp
  show ?thesis
  proof (cases "find (\<lambda>p. handle p = h') (timeouts s)")
    case None
    then show ?thesis using assms(1) Timeout by simp
  next
    case (Some p)
    then show ?thesis using assms(1) Timeout ne
      by (cases "messageDeleteTimer s") (auto simp: pending_def emit_messageDelete_effect)
  qed
qed

theorem timeout_cancelled_iff_witness:
  "pending (run demo_client [Gateway_raw (delete_packet ''A'')] (initial_state 0)) 0
   \<and> messageDeleteTimer (run demo_client [Gateway_raw (delete_packet ''A'')] (initial_state 0))
       = Slot_timeout 0
   \<and> \<not> pending (step demo_client (Gateway_messageDelete (cached_message ''A''))
          (run demo_client [Gateway_raw (delete_packet ''A'')] (initial_state 0))) 0"
proof -
  have p: "pending (run demo_client [Gateway_raw (delete_packet ''A'')] (initial_state 0)) 0"
    by (simp add: pending_def raw_delete)
  have ne: "Gateway_messageDelete (cached_message ''A'') \<noteq> Timeout 0"
    by simp
  have slot: "messageDeleteTimer (run demo_client [Gateway_raw (delete_packet ''A'')] (initial_state 0))
       = Slot_timeout 0"
    by (simp add: raw_delete)
  show ?thesis
    using p slot timeout_cancelled_iff [OF p ne, of demo_client]
    by simp
qed

text \<open>
  C7, as the claim states it, fails: the timeout pending for message A is cancelled by
  the structured notification for message B, and A is never reported.
\<close>

theorem structured_event_cancels_other_timer_counterexample:
  "dedup_entries (run demo_client [Gateway_raw (delete_packet ''A''), Elapse 100] (initial_state 0))
     = [Pending_timer 0 ''A'']
   \<and> pending (run demo_client [Gateway_raw (delete_packet ''A''), Elapse 100] (initial_state 0)) 0
   \<and> msg_id (cached_message ''B'') \<noteq> ''A''
   \<and> \<not> pending (run demo_client
        [Gateway_raw (delete_packet ''A''), Elapse 100, Gateway_messageDelete (cached_message ''B'')]
        (initial_state 0)) 0
   \<and> dispatch_count ''A'' (run demo_client
        [Gateway_raw (delete_packet ''A''), Elapse 100, Gateway_messageDelete (cached_message ''B'')]
        (initial_state 0)) = 0"
  by (simp add: raw_delete messageDelete_effect dispatch_count_def dedup_entries_def pending_def)

text \<open>
  C1, as the code has it. A deletion handled on its own (the variable is empty and no
  timeout is pending when it is first observed, the packet's channel is fetched, and no
  other deletion is observed meanwhile) gives exactly one run of the \<open>messageDelete\<close>
  handler: with the structured payload when the structured event arrives within 500 ms
  after the raw packet or before it, and no timeout is left to run; with the payload
  synthesized from the packet when only the raw packet arrives. The state is then as
  empty as before.
\<close>

theorem isolated_deletion_dispatched_once:
  assumes "\<not> slot_truthy (messageDeleteTimer s)" and "timeouts s = []"
    and "packet_t p = ''MESSAGE_DELETE''" and "channels_fetch c (d_channel_id p) = Returned ch"
  shows
    "(d < 500 \<longrightarrow>
        dispatches (run c [Gateway_raw p, Elapse d, Gateway_messageDelete m] s)
          = dispatches s @ [\<lparr>at = now s + d, source = Gateway, payload = m\<rparr>]
        \<and> timeouts (run c [Gateway_raw p, Elapse d, Gateway_messageDelete m] s) = []
        \<and> messageDeleteTimer (run c [Gateway_raw p, Elapse d, Gateway_messageDelete m] s) = Slot_null)
     \<and> (dispatches (run c [Gateway_messageDelete m, Elapse d, Gateway_raw p] s)
          = dispatches s @ [\<lparr>at = now s, source = Gateway, payload = m\<rparr>]
        \<and> timeouts (run c [Gateway_messageDelete m, Elapse d, Gateway_raw p] s) = []
        \<and> messageDeleteTimer (run c [Gateway_messageDelete m, Elapse d, Gateway_raw p] s) = Slot_null)
     \<and> (500 \<le> d \<longrightarrow>
        dispatches (run c [Gateway_raw p, Elapse d, Timeout (next_handle s)] s)
          = dispatches s @ [\<lparr>at = now s + d, source = Timer (next_handle s), payload = synthesized p ch\<rparr>]
        \<and> timeouts (run c [Gateway_raw p, Elapse d, Timeout (next_handle s)] s) = []
        \<and> messageDeleteTimer (run c [Gateway_raw p, Elapse d, Timeout (next_handle s)] s) = Slot_null)"
  using assms
  by (simp add: raw_delete_effect messageDelete_effect emit_messageDelete_effect)

theorem isolated_deletion_dispatched_once_witness:
  "dispatches (run demo_client
      [Gateway_raw (delete_packet ''A''), Elapse 100, Gateway_messageDelete (cached_message ''A'')]
      (initial_state 0))
     = [\<lparr>at = 100, source = Gateway, payload = cached_message ''A''\<rparr>]
   \<and> dispatches (run demo_client
      [Gateway_messageDelete (cached_message ''A''), Elapse 100, Gateway_raw (delete_packet ''A'')]
      (initial_state 0))
     = [\<lparr>at = 0, source = Gateway, payload = cached_message ''A''\<rparr>]
   \<and> dispatches (run demo_client
      [Gateway_raw (delete_packet ''A''), Elapse 600, Timeout 0] (initial_state 0))
     = [\<lparr>at = 600, source = Timer 0, payload = synthesized (delete_packet ''A'') general\<rparr>]"
proof -
  have quiet: "\<not> slot_truthy (messageDeleteTimer (initial_state 0))" "timeouts (initial_state 0) = []"
    by simp_all
  have pkt: "packet_t (delete_packet ''A'') = ''MESSAGE_DELETE''"
    "channels_fetch demo_client (d_channel_id (delete_packet ''A'')) = Returned general"
    by simp_all
  have a: "(100::nat) < 500" and b: "(500::nat) \<le> 600"
    by simp_all
  show ?thesis
    using isolated_deletion_dispatched_once [OF quiet pkt, of 100 "cached_message ''A''"]
      isolated_deletion_dispatched_once [OF quiet pkt, of 600 "cached_message ''A''"] a b
    by simp
qed

text \<open>
  C1, as the claim states it, fails. Message A is not cached and message B is; both are
  deleted within 500 ms. The structured event for B cancels the timeout of A, the raw
  packet for B then starts a timeout of its own: A is never dispatched, B is dispatched
  twice (once structured, once synthesized), and no timeout is left.
\<close>

theorem overlapping_deletions_counterexample:
  "dispatch_count ''A'' (run demo_client
      [Gateway_raw (delete_packet ''A''), Elapse 100,
       Gateway_messageDelete (cached_message ''B''), Gateway_raw (delete_packet ''B''),
       Elapse 500, Timeout 1] (initial_state 0)) = 0
   \<and> map source (dispatches (run demo_client
      [Gateway_raw (delete_packet ''A''), Elapse 100,
       Gateway_messageDelete (cached_message ''B''), Gateway_raw (delete_packet ''B''),
       Elapse 500, Timeout 1] (initial_state 0))) = [Gateway, Timer 1]
   \<and> dispatch_count ''B'' (run demo_client
      [Gateway_raw (delete_packet ''A''), Elapse 100,
       Gateway_messageDelete (cached_message ''B''), Gateway_raw (delete_packet ''B''),
       Elapse 500, Timeout 1] (initial_state 0)) = 2
   \<and> timeouts (run demo_client
      [Gateway_raw (delete_packet ''A''), Elapse 100,
       Gateway_messageDelete (cached_message ''B''), Gateway_raw (delete_packet ''B''),
       Elapse 500, Timeout 1] (initial_state 0)) = []"
  by (simp add: raw_delete_effect messageDelete_effect emit_messageDelete_effect dispatch_count_def)

text \<open>
  C6, as the code has it. A raw deletion packet handled while the variable is empty
  (and whose channel is fetched) starts a timeout that cannot run before 500 ms have
  passed; when it runs with no other deletion observed meanwhile, it gives exactly one
  run of the handler, with the message synthesized from the packet's id, channel and
  guild alone, and it cannot run a second time.
\<close>

theorem raw_only_timeout:
  assumes "s = run c es (initial_state t0)"
    and "\<not> slot_truthy (messageDeleteTimer s)"
    and "packet_t p = ''MESSAGE_DELETE''" and "channels_fetch c (d_channel_id p) = Returned ch"
  shows
    "(d < 500 \<longrightarrow>
        step c (Timeout (next_handle s)) (run c [Gateway_raw p, Elapse d] s)
          = run c [Gateway_raw p, Elapse d] s)
     \<and> (500 \<le> d \<longrightarrow>
        dispatches (run c [Gateway_raw p, Elapse d, Timeout (next_handle s)] s)
          = dispatches s @
              [\<lparr>at = now s + d, source = Timer (next_handle s),
                payload = \<lparr>msg_id = d_id p, partial = False, msg_channel = ch,
                            channelId = d_channel_id p, guildId = d_guild_id p,
                            msg_content = None, msg_author = None, attachments = None,
                            url = ''undefined'', editedTimestamp = None\<rparr>\<rparr>]
        \<and> \<not> pending (run c [Gateway_raw p, Elapse d, Timeout (next_handle s)] s) (next_handle s)
        \<and> step c (Timeout (next_handle s)) (run c [Gateway_raw p, Elapse d, Timeout (next_handle s)] s)
            = run c [Gateway_raw p, Elapse d, Timeout (next_handle s)] s)"
proof -
  have inv: "slot_inv s"
    using assms(1) slot_inv_run [OF slot_inv_initial] by simp
  let ?h = "next_handle s"
  let ?new = "\<lparr>handle = ?h, due = now s + 500, callback_message = synthesized p ch\<rparr>"
  have fresh: "\<forall>q \<in> set (timeouts s). handle q \<noteq> ?h"
    using slot_inv_fresh [OF inv] .
  have found: "find (\<lambda>q. handle q = ?h) (timeouts s @ [?new]) = Some ?new"
    using find_fresh_handle [OF fresh, of ?new] by simp
  have kept: "filter (\<lambda>q. handle q \<noteq> ?h) (timeouts s) = timeouts s"
    using filter_fresh_handle [OF fresh] .
  have gone: "find (\<lambda>q. handle q = ?h) (timeouts s) = None"
    using fresh by (simp add: find_None_iff)
  show ?thesis
    using assms(2-4) found kept gone fresh
    by (auto simp: raw_delete_effect emit_messageDelete_effect synthesized_def pending_def)
qed

theorem raw_only_timeout_witness:
  "step demo_client (Timeout 0)
      (run demo_client [Gateway_raw (delete_packet ''A''), Elapse 499] (initial_state 0))
     = run demo_client [Gateway_raw (delete_packet ''A''), Elapse 499] (initial_state 0)
   \<and> dispatches (run demo_client [Gateway_raw (delete_packet ''A''), Elapse 500, Timeout 0]
        (initial_state 0))
     = [\<lparr>at = 500, source = Timer 0,
         payload = \<lparr>msg_id = ''A'', partial = False, msg_channel = general,
                     channelId = ''general'', guildId = Some ''guild'',
                     msg_content = None, msg_author = None, attachments = None,
                     url = ''undefined'', editedTimestamp = None\<rparr>\<rparr>]"
proof -
  have reach: "initial_state 0 = run demo_client [] (initial_state 0)"
    by simp
  have quiet: "\<not> slot_truthy (messageDeleteTimer (initial_state 0))"
    by simp
  have pkt: "packet_t (delete_packet ''A'') = ''MESSAGE_DELETE''"
    "channels_fetch demo_client (d_channel_id (delete_packet ''A'')) = Returned general"
    by simp_all
  have a: "(499::nat) < 500" and b: "(500::nat) \<le> 500"
    by simp_all
  have fields: "d_guild_id (delete_packet ''A'') = Some ''guild''"
    by (simp add: delete_packet_def)
  from raw_only_timeout [OF reach quiet pkt, of 499] a
  have early: "step demo_client (Timeout (next_handle (initial_state 0)))
      (run demo_client [Gateway_raw (delete_packet ''A''), Elapse 499] (initial_state 0))
     = run demo_client [Gateway_raw (delete_packet ''A''), Elapse 499] (initial_state 0)"
    by blast
  from raw_only_timeout [OF reach quiet pkt, of 500] b
  have late: "dispatches (run demo_client
        [Gateway_raw (delete_packet ''A''), Elapse 500, Timeout (next_handle (initial_state 0))]
        (initial_state 0))
     = dispatches (initial_state 0) @
         [\<lparr>at = now (initial_state 0) + 500, source = Timer (next_handle (initial_state 0)),
           payload = \<lparr>msg_id = d_id (delete_packet ''A''), partial = False, msg_channel = general,
                       channelId = d_channel_id (delete_packet ''A''),
                       guildId = d_guild_id (delete_packet ''A''),
                       msg_content = None, msg_author = None, attachments = None,
                       url = ''undefined'', editedTimestamp = None\<rparr>\<rparr>]"
    by blast
  show ?thesis
    using early late by (simp add: fields)
qed

text \<open>
  C6, as the claim states it, fails. Two messages that are not cached are deleted within
  500 ms: the raw packet for B finds the variable set and clears it, so B gets no
  timeout; after A's timeout has run no timeout is left, and B is never dispatched.
\<close>

theorem second_raw_deletion_counterexample:
  "dispatch_count ''B'' (run demo_client
      [Gateway_raw (delete_packet ''A''), Elapse 100, Gateway_raw (delete_packet ''B''),
       Elapse 400, Timeout 0] (initial_state 0)) = 0
   \<and> dispatch_count ''A'' (run demo_client
      [Gateway_raw (delete_packet ''A''), Elapse 100, Gateway_raw (delete_packet ''B''),
       Elapse 400, Timeout 0] (initial_state 0)) = 1
   \<and> timeouts (run demo_client
      [Gateway_raw (delete_packet ''A''), Elapse 100, Gateway_raw (delete_packet ''B''),
       Elapse 400, Timeout 0] (initial_state 0)) = []"
  by (simp add: raw_delete_effect emit_messageDelete_effect dispatch_count_def)

subsection \<open>Raw MESSAGE_UPDATE packets\<close>

lemma update_mainFields_null:
  "uh_oh \<in> set (update_mainFields None new cmp)"
  "''Old Message'' \<notin> set (map field_name (update_mainFields None new cmp))"
  by (auto simp: update_mainFields_def Let_def uh_oh_def when_field_def)

lemma bind_c_Returned:
  "(bind_c x f = Returned y) = (\<exists>v. x = Returned v \<and> f v = Returned y)"
  by (cases x) (simp_all add: bind_c_def)

lemma update_outbound_main:
  assumes "update_outbound old new = Returned out"
  shows "embed_fields (hd (embeds out)) =
           update_mainFields old new
             ((case old of None \<Rightarrow> False | Some x \<Rightarrow> size_truthy (attachments x))
              \<or> size_truthy (attachments new))"
  using assms unfolding update_outbound_def Let_def
  by (auto simp: bind_c_Returned split: option.splits)

lemma messageUpdate_null_sent:
  assumes "sent (messageUpdate c None m s) = sent s @ [out]"
  shows "\<exists>new cmp. embed_fields (hd (embeds out)) = update_mainFields None new cmp"
proof -
  let ?r = "bind_c (if partial m then message_fetch c m else Returned m) (\<lambda>new'.
        bind_c (channels_fetch c (logChannelId c)) (\<lambda>logChannel.
        if channel_guildId logChannel \<noteq> guildId new' then Returned None
        else bind_c (update_outbound None new') (\<lambda>out. Returned (Some out))))"
  have eq: "messageUpdate c None m s = settle s ?r"
    by (simp add: messageUpdate_def bind_c_def)
  from assms have "?r = Returned (Some out)"
    unfolding eq by (auto simp: settle_def split: completion.splits option.splits)
  then obtain new' where "update_outbound None new' = Returned out"
    by (auto simp: bind_c_Returned split: if_splits)
  then show ?thesis using update_outbound_main by blast
qed

text \<open>
  C9, as the code has it. For a raw \<open>MESSAGE_UPDATE\<close> packet: when \<open>Date.parse\<close> of the
  packet's \<open>d.timestamp\<close> is a time strictly before the client's ready time and the
  fetches of the channel and of the message both succeed, one \<open>messageUpdate\<close> event is
  emitted, with \<open>null\<close> for the old message and the fetched message for the new one;
  when the time is not before the ready time, or a fetch is rejected, none is emitted.
  The timer variable and the pending timeouts are never touched, and a log message
  sent for such an event has the field \<open>Uh oh!\<close> and no field \<open>Old Message\<close>.
\<close>

theorem raw_update_emits:
  assumes "packet_t p = ''MESSAGE_UPDATE''"
  shows
    "(\<forall>ch m. before_ready (Date_parse c (d_timestamp p)) (readyTimestamp c)
          \<and> channels_fetch c (d_channel_id p) = Returned ch
          \<and> messages_fetch c ch (d_id p) = Returned m
        \<longrightarrow> emits (raw c p s) = emits s @ [Emit_messageUpdate None m])
     \<and> (\<not> before_ready (Date_parse c (d_timestamp p)) (readyTimestamp c)
        \<longrightarrow> emits (raw c p s) = emits s \<and> sent (raw c p s) = sent s)
     \<and> (\<forall>e. channels_fetch c (d_channel_id p) = Thrown e \<longrightarrow> emits (raw c p s) = emits s)
     \<and> (\<forall>ch e. channels_fetch c (d_channel_id p) = Returned ch
          \<and> messages_fetch c ch (d_id p) = Thrown e \<longrightarrow> emits (raw c p s) = emits s)
     \<and> messageDeleteTimer (raw c p s) = messageDeleteTimer s
     \<and> timeouts (raw c p s) = timeouts s
     \<and> (\<forall>out. sent (raw c p s) = sent s @ [out] \<longrightarrow>
          uh_oh \<in> set (embed_fields (hd (embeds out)))
          \<and> ''Old Message'' \<notin> set (map field_name (embed_fields (hd (embeds out)))))"
proof (intro conjI allI impI)
  fix out assume snt: "sent (raw c p s) = sent s @ [out]"
  have "\<exists>new cmp. embed_fields (hd (embeds out)) = update_mainFields None new cmp"
  proof (cases "before_ready (Date_parse c (d_timestamp p)) (readyTimestamp c)")
    case False
    with snt assms show ?thesis by (simp add: raw_def Let_def)
  next
    case True
    show ?thesis
    proof (cases "channels_fetch c (d_channel_id p)")
      case (Thrown e)
      with snt assms True show ?thesis by (simp add: raw_def Let_def)
    next
      case (Returned ch)
      show ?thesis
      proof (cases "messages_fetch c ch (d_id p)")
        case (Thrown e)
        with snt assms True Returned show ?thesis by (simp add: raw_def Let_def)
      next
        case (Returned m)
        with snt assms True \<open>channels_fetch c (d_channel_id p) = Returned ch\<close>
        have "sent (messageUpdate c None m
                 (s\<lparr>debugged := debugged s @ [p], emits := emits s @ [Emit_messageUpdate None m]\<rparr>))
                = sent (s\<lparr>debugged := debugged s @ [p],
                          emits := emits s @ [Emit_messageUpdate None m]\<rparr>) @ [out]"
          by (simp add: raw_def Let_def emit_messageUpdate_def)
        then show ?thesis by (rule messageUpdate_null_sent)
      qed
    qed
  qed
  then obtain new cmp where "embed_fields (hd (embeds out)) = update_mainFields None new cmp"
    by blast
  then show "uh_oh \<in> set (embed_fields (hd (embeds out)))"
    and "''Old Message'' \<notin> set (map field_name (embed_fields (hd (embeds out))))"
    using update_mainFields_null [of new cmp] by simp_all
qed (use assms in \<open>auto simp: raw_def Let_def emit_messageUpdate_def split: completion.splits\<close>)

lemma demo_update_facts:
  "packet_t (update_packet cid stamp) = ''MESSAGE_UPDATE''"
  "before_ready (Date_parse demo_client (d_timestamp (update_packet cid ''1970-01-01T00:00:00.500Z'')))
     (readyTimestamp demo_client)"
  "\<not> before_ready (Date_parse demo_client (d_timestamp (update_packet cid ''1970-01-01T00:00:02.000Z'')))
     (readyTimestamp demo_client)"
  "channels_fetch demo_client (d_channel_id (update_packet ''general'' stamp)) = Returned general"
  "channels_fetch demo_client (d_channel_id (update_packet ''gone'' stamp)) = Thrown (Error ''Unknown Channel'')"
  "messages_fetch demo_client general (d_id (update_packet cid stamp)) = Returned (cached_message ''M'')"
  by (simp_all add: update_packet_def demo_client_def before_ready_def)

theorem raw_update_emits_witness:
  "emits (raw demo_client (update_packet ''general'' ''1970-01-01T00:00:00.500Z'') (initial_state 0))
     = [Emit_messageUpdate None (cached_message ''M'')]
   \<and> emits (raw demo_client (update_packet ''general'' ''1970-01-01T00:00:02.000Z'') (initial_state 0))
     = []
   \<and> timeouts (raw demo_client (update_packet ''general'' ''1970-01-01T00:00:00.500Z'') (initial_state 0))
     = []"
proof -
  have early: "packet_t (update_packet ''general'' ''1970-01-01T00:00:00.500Z'') = ''MESSAGE_UPDATE''"
    and late: "packet_t (update_packet ''general'' ''1970-01-01T00:00:02.000Z'') = ''MESSAGE_UPDATE''"
    by (simp_all add: demo_update_facts(1))
  show ?thesis
    using raw_update_emits [OF early, of demo_client "initial_state 0"]
      raw_update_emits [OF late, of demo_client "initial_state 0"]
      demo_update_facts(2-4,6)
    by simp
qed

text \<open>
  The log message of that run: the old content is reported as not fetchable.
\<close>

lemma raw_update_log_example:
  "sent (raw demo_client (update_packet ''general'' ''1970-01-01T00:00:00.500Z'') (initial_state 0))
     = [\<lparr>embeds =
           [\<lparr>title = Some ''Message Updated'',
             description = Some ''`ann` <@1> (1)'',
             color = Some 0x6666ff,
             embed_fields =
               [\<lparr>field_name = ''Uh oh!'',
                 field_value = JStr ''Old message content can't be fetched, because it is too old.''\<rparr>,
                \<lparr>field_name = ''New Message'', field_value = JStr ''hello''\<rparr>,
                \<lparr>field_name = ''Link'',
                 field_value = JStr ''<#general> / https://discord.com/channels/guild/general/M''\<rparr>,
                \<lparr>field_name = ''When'', field_value = JStr ''<t:3:R>''\<rparr>]\<rparr>],
         files = []\<rparr>]"
proof -
  have "decimal 3 = ''3''"
    by code_simp
  then show ?thesis
    by (simp add: raw_def Let_def demo_update_facts emit_messageUpdate_def messageUpdate_def
          settle_def bind_c_def update_outbound_def update_mainFields_def attachment_list_def
          cached_message_def demo_client_def log_channel_def general_def update_packet_def
          before_ready_def initial_state_def author_line_def uh_oh_def when_field_def
          round_seconds_def)
qed

text \<open>
  C9, as the claim states it, fails: the packet's time is before the ready time, but the
  fetch of its channel is rejected, and no event is emitted.
\<close>

theorem raw_update_fetch_counterexample:
  "before_ready (Date_parse demo_client (d_timestamp (update_packet ''gone'' ''1970-01-01T00:00:00.500Z'')))
     (readyTimestamp demo_client)
   \<and> emits (raw demo_client (update_packet ''gone'' ''1970-01-01T00:00:00.500Z'') (initial_state 0)) = []
   \<and> rejections (raw demo_client (update_packet ''gone'' ''1970-01-01T00:00:00.500Z'') (initial_state 0))
       = [Error ''Unknown Channel'']"
  by (simp add: raw_def Let_def demo_update_facts)

end
